theory Spec2Isabelle
  imports Main
begin

section \<open>Python values\<close>

text \<open>
  A Python \<^verbatim>\<open>str\<close> is a \<^typ>\<open>string\<close>: one \<^typ>\<open>char\<close> stands for one character, so
  \<^const>\<open>length\<close> is Python's \<^verbatim>\<open>len\<close> and \<^const>\<open>take\<close> is the slice \<^verbatim>\<open>s[:n]\<close>.
  An exception is a value: its class name and the text \<^verbatim>\<open>str(e)\<close>. Only instances of
  \<^verbatim>\<open>Exception\<close> are modelled, which is what \<^verbatim>\<open>except Exception\<close> catches.
\<close>

datatype exn = Exn (exn_class: string) (exn_str: string)

text \<open>
  What \<^verbatim>\<open>json.loads\<close> returns. A float is \<open>JFloat m e\<close>, the value \<open>m * 2 ^ e\<close>; a dict
  is the list of its items in insertion order, keys distinct, looked up with \<^const>\<open>map_of\<close>.
\<close>

datatype json =
    JNull
  | JBool bool
  | JInt int
  | JFloat int int
  | JString string
  | JArray "json list"
  | JObject "(string \<times> json) list"

definition quoted :: "string \<Rightarrow> string" where
  "quoted s = [CHR 0x27] @ s @ [CHR 0x27]"

fun type_name :: "json \<Rightarrow> string" where
  "type_name JNull = ''NoneType''"
| "type_name (JBool b) = ''bool''"
| "type_name (JInt i) = ''int''"
| "type_name (JFloat m e) = ''float''"
| "type_name (JString s) = ''str''"
| "type_name (JArray xs) = ''list''"
| "type_name (JObject kvs) = ''dict''"

text \<open>Truth value of an object in a condition.\<close>

fun truthy :: "json \<Rightarrow> bool" where
  "truthy JNull = False"
| "truthy (JBool b) = b"
| "truthy (JInt i) = (i \<noteq> 0)"
| "truthy (JFloat m e) = (m \<noteq> 0)"
| "truthy (JString s) = (s \<noteq> [])"
| "truthy (JArray xs) = (xs \<noteq> [])"
| "truthy (JObject kvs) = (kvs \<noteq> [])"

text \<open>\<^verbatim>\<open>len(v)\<close>: defined on strings, lists and dicts, a TypeError elsewhere.\<close>

fun py_len :: "json \<Rightarrow> exn + nat" where
  "py_len (JString s) = Inr (length s)"
| "py_len (JArray xs) = Inr (length xs)"
| "py_len (JObject kvs) = Inr (length kvs)"
| "py_len v = Inl (Exn ''TypeError'' (''object of type '' @ quoted (type_name v) @ '' has no len()''))"

text \<open>\<^verbatim>\<open>v[key]\<close> with a string key: a dict lookup, KeyError when absent, TypeError elsewhere.\<close>

fun subscript :: "json \<Rightarrow> string \<Rightarrow> exn + json" where
  "subscript (JObject kvs) k =
     (case map_of kvs k of Some v \<Rightarrow> Inr v | None \<Rightarrow> Inl (Exn ''KeyError'' (quoted k)))"
| "subscript (JString s) k =
     Inl (Exn ''TypeError'' (''string indices must be integers, not '' @ quoted ''str''))"
| "subscript (JArray xs) k =
     Inl (Exn ''TypeError'' ''list indices must be integers or slices, not str'')"
| "subscript v k =
     Inl (Exn ''TypeError'' (quoted (type_name v) @ '' object is not subscriptable''))"

text \<open>
  \<^verbatim>\<open>for x in v\<close>: the elements of a list, the characters of a string, the keys of a dict;
  a TypeError for anything else.
\<close>

fun py_iter :: "json \<Rightarrow> exn + json list" where
  "py_iter (JArray xs) = Inr xs"
| "py_iter (JString s) = Inr (map (\<lambda>c. JString [c]) s)"
| "py_iter (JObject kvs) = Inr (map (\<lambda>kv. JString (fst kv)) kvs)"
| "py_iter v = Inl (Exn ''TypeError'' (quoted (type_name v) @ '' object is not iterable''))"

text \<open>\<^verbatim>\<open>sep.join(xs)\<close>\<close>

fun join :: "string \<Rightarrow> string list \<Rightarrow> string" where
  "join sep [] = []"
| "join sep [x] = x"
| "join sep (x # y # ys) = x @ sep @ join sep (y # ys)"

text \<open>\<^verbatim>\<open>s.strip()\<close>: the characters for which \<^verbatim>\<open>str.isspace\<close> holds, among the 256 modelled.\<close>

definition py_isspace :: "char \<Rightarrow> bool" where
  "py_isspace c = (c \<in> set [CHR 0x09, CHR 0x0A, CHR 0x0B, CHR 0x0C, CHR 0x0D,
     CHR 0x1C, CHR 0x1D, CHR 0x1E, CHR 0x1F, CHR 0x20, CHR 0x85, CHR 0xA0])"

definition py_strip :: "string \<Rightarrow> string" where
  "py_strip s = rev (dropWhile py_isspace (rev (dropWhile py_isspace s)))"

text \<open>Decimal text of a status code, as an f-string prints it.\<close>

fun show_nat :: "nat \<Rightarrow> string" where
  "show_nat n =
     (if n < 10 then [''0123456789'' ! n]
      else show_nat (n div 10) @ [''0123456789'' ! (n mod 10)])"

section \<open>The parsed document\<close>

text \<open>
  The tree \<^verbatim>\<open>BeautifulSoup(content, 'html.parser')\<close> builds: a \<open>NavigableString\<close> is a
  string that \<^verbatim>\<open>get_text\<close> collects (text and CDATA), a \<open>SpecialString\<close> one of the string
  classes it leaves out (comments, doctype, the text of script and style), a \<open>Tag\<close> an
  element with its attribute dict and its contents. A soup is the list of the top-level nodes.
\<close>

type_synonym attrs = "(string \<times> string) list"

datatype node =
    NavigableString string
  | SpecialString string
  | Tag string attrs "node list"

text \<open>\<^verbatim>\<open>soup.find(name)\<close>, also \<^verbatim>\<open>soup.title\<close> and \<^verbatim>\<open>soup.body\<close>: the first element of that
  name in document order.\<close>

fun find_first :: "string \<Rightarrow> node list \<Rightarrow> (attrs \<times> node list) option" where
  "find_first n [] = None"
| "find_first n (Tag m as cs # rest) =
     (if m = n then Some (as, cs)
      else case find_first n cs of Some t \<Rightarrow> Some t | None \<Rightarrow> find_first n rest)"
| "find_first n (x # rest) = find_first n rest"

text \<open>\<^verbatim>\<open>tag.string\<close>: the only child when it is a string, the \<^verbatim>\<open>.string\<close> of the only child
  when it is an element, and \<^verbatim>\<open>None\<close> with no child or several.\<close>

fun tag_string :: "node list \<Rightarrow> string option" where
  "tag_string [NavigableString s] = Some s"
| "tag_string [SpecialString s] = Some s"
| "tag_string [Tag m as cs] = tag_string cs"
| "tag_string cs = None"

text \<open>\<^verbatim>\<open>find_all\<close> with a test on name and attributes: every matching element in document
  order, those nested in a match included. Only the attribute dicts are kept.\<close>

fun find_all :: "(string \<Rightarrow> attrs \<Rightarrow> bool) \<Rightarrow> node list \<Rightarrow> attrs list" where
  "find_all p [] = []"
| "find_all p (Tag m as cs # rest) =
     (if p m as then [as] else []) @ find_all p cs @ find_all p rest"
| "find_all p (x # rest) = find_all p rest"

text \<open>\<^verbatim>\<open>for tag in t.find_all(names): tag.decompose()\<close>: every descendant element with one
  of the names is removed from the tree, with all it contains.\<close>

fun decompose_all :: "string list \<Rightarrow> node list \<Rightarrow> node list" where
  "decompose_all ns [] = []"
| "decompose_all ns (Tag m as cs # rest) =
     (if m \<in> set ns then decompose_all ns rest
      else Tag m as (decompose_all ns cs) # decompose_all ns rest)"
| "decompose_all ns (x # rest) = x # decompose_all ns rest"

text \<open>The same loop run on \<^verbatim>\<open>soup.body\<close>, seen from the soup: the removal happens in place,
  inside the first \<^verbatim>\<open>body\<close> element, and the rest of the tree is untouched.\<close>

fun decompose_in_body :: "string list \<Rightarrow> node list \<Rightarrow> node list" where
  "decompose_in_body ns [] = []"
| "decompose_in_body ns (Tag m as cs # rest) =
     (if m = ''body'' then Tag m as (decompose_all ns cs) # rest
      else if find_first ''body'' cs \<noteq> None then Tag m as (decompose_in_body ns cs) # rest
      else Tag m as cs # decompose_in_body ns rest)"
| "decompose_in_body ns (x # rest) = x # decompose_in_body ns rest"

fun all_strings :: "node list \<Rightarrow> string list" where
  "all_strings [] = []"
| "all_strings (NavigableString s # rest) = s # all_strings rest"
| "all_strings (SpecialString s # rest) = all_strings rest"
| "all_strings (Tag m as cs # rest) = all_strings cs @ all_strings rest"

text \<open>\<^verbatim>\<open>tag.get_text(separator="\n", strip=True)\<close> on the contents of the tag.\<close>

definition get_text :: "node list \<Rightarrow> string" where
  "get_text cs = join ''\<newline>'' (filter (\<lambda>t. t \<noteq> []) (map py_strip (all_strings cs)))"

section \<open>The outside world\<close>

record response =
  status_code :: nat
  reason :: string
  resp_url :: string
  resp_content :: string

text \<open>\<^verbatim>\<open>response.raise_for_status()\<close> of requests: an HTTPError for a status from 400 to 599,
  nothing for any other status. \<open>Some e\<close> is the raise.\<close>

definition raise_for_status :: "response \<Rightarrow> exn option" where
  "raise_for_status r =
     (if 400 \<le> status_code r \<and> status_code r < 500 then
        Some (Exn ''HTTPError'' (show_nat (status_code r) @ '' Client Error: '' @ reason r
                @ '' for url: '' @ resp_url r))
      else if 500 \<le> status_code r \<and> status_code r < 600 then
        Some (Exn ''HTTPError'' (show_nat (status_code r) @ '' Server Error: '' @ reason r
                @ '' for url: '' @ resp_url r))
      else None)"

datatype role = System | User

record message =
  role :: role
  content :: string

text \<open>A completion is the list \<^verbatim>\<open>response.choices\<close>, each choice reduced to its
  \<^verbatim>\<open>message.content\<close>, which may be \<^verbatim>\<open>None\<close>.\<close>

type_synonym completion = "string option list"

text \<open>
  The libraries and services the scripts call. The world \<open>'w\<close> is whatever the network, the
  model server, the clock and the random generator depend on; a call returns its result
  and the world after it.
  \<^item> \<open>requests_get url agent\<close>: \<^verbatim>\<open>requests.get(url, headers={"User-Agent": agent}, timeout=10)\<close>;
  \<^item> \<open>BeautifulSoup\<close>: the parse of the response content;
  \<^item> \<open>chat_completions_create model messages json_mode\<close>: the chat-completion request,
    \<open>json_mode\<close> being \<^verbatim>\<open>response_format={"type": "json_object"}\<close>;
  \<^item> \<open>json_loads\<close>: \<^verbatim>\<open>json.loads\<close> on a string;
  \<^item> \<open>py_str\<close>: \<^verbatim>\<open>str(v)\<close> for a value that is not a string;
  \<^item> \<open>random_choice n\<close>: the index \<^verbatim>\<open>random.choice\<close> picks in a list of length \<open>n\<close>;
  \<^item> \<open>time_sleep\<close>: \<^verbatim>\<open>time.sleep(random.uniform(1, 2))\<close>.
\<close>

record 'w env =
  requests_get :: "string \<Rightarrow> string \<Rightarrow> 'w \<Rightarrow> (exn + response) \<times> 'w"
  BeautifulSoup :: "string \<Rightarrow> exn + node list"
  chat_completions_create :: "string \<Rightarrow> message list \<Rightarrow> bool \<Rightarrow> 'w \<Rightarrow> (exn + completion) \<times> 'w"
  json_loads :: "string \<Rightarrow> exn + json"
  py_str :: "json \<Rightarrow> string"
  random_choice :: "nat \<Rightarrow> 'w \<Rightarrow> nat \<times> 'w"
  time_sleep :: "'w \<Rightarrow> 'w"

text \<open>What a run does that can be seen from outside, in the order it happens.\<close>

datatype event =
    Get string string
  | ChatCall string "message list" bool
  | Print string
  | Sleep

record 'w state =
  world :: 'w
  trace :: "event list"

definition emit :: "event \<Rightarrow> 'w state \<Rightarrow> 'w state" where
  "emit e s = s\<lparr>trace := trace s @ [e]\<rparr>"

definition do_get :: "'w env \<Rightarrow> string \<Rightarrow> string \<Rightarrow> 'w state \<Rightarrow> (exn + response) \<times> 'w state" where
  "do_get env url agent s =
     (case requests_get env url agent (world s) of
        (r, w) \<Rightarrow> (r, emit (Get url agent) (s\<lparr>world := w\<rparr>)))"

definition do_chat :: "'w env \<Rightarrow> string \<Rightarrow> message list \<Rightarrow> bool \<Rightarrow> 'w state
    \<Rightarrow> (exn + completion) \<times> 'w state" where
  "do_chat env model msgs json_mode s =
     (case chat_completions_create env model msgs json_mode (world s) of
        (r, w) \<Rightarrow> (r, emit (ChatCall model msgs json_mode) (s\<lparr>world := w\<rparr>)))"

definition do_sleep :: "'w env \<Rightarrow> 'w state \<Rightarrow> 'w state" where
  "do_sleep env s = emit Sleep (s\<lparr>world := time_sleep env (world s)\<rparr>)"

text \<open>An f-string field \<^verbatim>\<open>{v}\<close>: a string as it is, anything else through \<^verbatim>\<open>str\<close>.\<close>

definition py_text :: "'w env \<Rightarrow> json \<Rightarrow> string" where
  "py_text env v = (case v of JString s \<Rightarrow> s | _ \<Rightarrow> py_str env v)"

text \<open>\<^verbatim>\<open>response.choices[0].message.content\<close>\<close>

definition first_choice :: "completion \<Rightarrow> exn + string option" where
  "first_choice choices =
     (case choices of [] \<Rightarrow> Inl (Exn ''IndexError'' ''list index out of range'')
      | c # cs \<Rightarrow> Inr c)"

definition MODEL :: string where
  "MODEL = ''llama3.2''"

section \<open>Script 1: the summarizer\<close>

definition HEADERS :: string where
  "HEADERS = ''Mozilla/5.0 (Windows NT 10.0; Win64; x64) AppleWebKit/537.36 ''
     @ ''(KHTML, like Gecko) Chrome/117.0.0.0 Safari/537.36''"

definition SYSTEM_PROMPT :: string where
  "SYSTEM_PROMPT = ''You are an assistant that analyzes the contents of a website \<newline>''
     @ ''and provides a short summary, ignoring text that might be navigation related. \<newline>''
     @ ''Respond in markdown.''"

text \<open>The object \<^verbatim>\<open>Website(url)\<close> of the summarizer. The title is \<^verbatim>\<open>soup.title.string\<close>,
  which is \<^verbatim>\<open>None\<close> for a title element with no single string in it.\<close>

record summarizer_website =
  s_url :: string
  s_title :: "string option"
  s_text :: string

definition summarizer_noise :: "string list" where
  "summarizer_noise = [''script'', ''style'', ''img'', ''input'', ''nav'', ''footer'']"

text \<open>The body of the \<^verbatim>\<open>try\<close> once the parse is there: title and text.\<close>

definition summarizer_extract :: "node list \<Rightarrow> string option \<times> string" where
  "summarizer_extract soup =
     (let title = (case find_first ''title'' soup of
                     Some (as, cs) \<Rightarrow> tag_string cs
                   | None \<Rightarrow> Some ''No title found'');
          text = (case find_first ''body'' soup of
                    Some (as, cs) \<Rightarrow> get_text (decompose_all summarizer_noise cs)
                  | None \<Rightarrow> ''No body content found'')
      in (title, text))"

text \<open>The whole \<^verbatim>\<open>try\<close> block, from the outcome of \<^verbatim>\<open>requests.get\<close>: \<open>Inl e\<close> is the
  exception that reaches \<^verbatim>\<open>except Exception as e\<close>.\<close>

definition summarizer_try :: "'w env \<Rightarrow> exn + response \<Rightarrow> exn + (string option \<times> string)" where
  "summarizer_try env r =
     (case r of
        Inl e \<Rightarrow> Inl e
      | Inr resp \<Rightarrow>
          (case raise_for_status resp of
             Some e \<Rightarrow> Inl e
           | None \<Rightarrow>
               (case BeautifulSoup env (resp_content resp) of
                  Inl e \<Rightarrow> Inl e
                | Inr soup \<Rightarrow> Inr (summarizer_extract soup))))"

definition summarizer_Website :: "'w env \<Rightarrow> string \<Rightarrow> 'w state \<Rightarrow> summarizer_website \<times> 'w state" where
  "summarizer_Website env url s =
     (case do_get env url HEADERS s of
        (r, s1) \<Rightarrow>
          (case summarizer_try env r of
             Inr (title, text) \<Rightarrow> (\<lparr>s_url = url, s_title = title, s_text = text\<rparr>, s1)
           | Inl e \<Rightarrow>
               (\<lparr>s_url = url,
                 s_title = Some (''Error: '' @ exn_str e),
                 s_text = ''Failed to fetch website content: '' @ exn_str e\<rparr>, s1)))"

text \<open>An f-string field holding a string or \<^verbatim>\<open>None\<close>.\<close>

definition fmt_opt :: "string option \<Rightarrow> string" where
  "fmt_opt v = (case v of None \<Rightarrow> ''None'' | Some t \<Rightarrow> t)"

definition create_user_prompt :: "summarizer_website \<Rightarrow> string" where
  "create_user_prompt website =
     ''You are looking at a website titled '' @ fmt_opt (s_title website) @ ''\<newline>''
     @ ''The contents of this website is as follows; please provide a short summary \<newline>''
     @ ''of this website in markdown. If it includes news or announcements, \<newline>''
     @ ''then summarize these too.\<newline>''
     @ ''\<newline>''
     @ s_text website"

definition create_messages :: "summarizer_website \<Rightarrow> message list" where
  "create_messages website =
     [\<lparr>role = System, content = SYSTEM_PROMPT\<rparr>,
      \<lparr>role = User, content = create_user_prompt website\<rparr>]"

text \<open>\<^verbatim>\<open>summarize\<close> returns a value in every case: the first choice's content (which may be
  \<^verbatim>\<open>None\<close>), or the error text built in the \<^verbatim>\<open>except\<close> branch.\<close>

definition summarize :: "'w env \<Rightarrow> string \<Rightarrow> 'w state \<Rightarrow> string option \<times> 'w state" where
  "summarize env url s =
     (case summarizer_Website env url s of
        (website, s1) \<Rightarrow>
          (case do_chat env MODEL (create_messages website) False s1 of
             (r, s2) \<Rightarrow>
               (case (case r of Inl e \<Rightarrow> Inl e | Inr c \<Rightarrow> first_choice c) of
                  Inr result \<Rightarrow> (result, s2)
                | Inl e \<Rightarrow>
                    (Some (''## Error Generating Summary\<newline>Failed to generate summary: ''
                             @ exn_str e), s2))))"

definition display_summary :: "'w env \<Rightarrow> string \<Rightarrow> 'w state \<Rightarrow> 'w state" where
  "display_summary env url s =
     (case summarize env url s of (summary, s1) \<Rightarrow> emit (Print (fmt_opt summary)) s1)"

section \<open>Script 3: the brochure builder\<close>

definition USER_AGENTS :: "string list" where
  "USER_AGENTS =
     [''Mozilla/5.0 (Windows NT 10.0; Win64; x64) AppleWebKit/537.36 ''
        @ ''(KHTML, like Gecko) Chrome/117.0.0.0 Safari/537.36'',
      ''Mozilla/5.0 (Macintosh; Intel Mac OS X 10_15_7) AppleWebKit/605.1.15 ''
        @ ''(KHTML, like Gecko) Version/14.0.3 Safari/605.1.15'',
      ''Mozilla/5.0 (X11; Linux x86_64) AppleWebKit/537.36 ''
        @ ''(KHTML, like Gecko) Chrome/88.0.4324.96 Safari/537.36'']"

definition get_headers :: "'w env \<Rightarrow> 'w state \<Rightarrow> string \<times> 'w state" where
  "get_headers env s =
     (case random_choice env (length USER_AGENTS) (world s) of
        (i, w) \<Rightarrow> (USER_AGENTS ! (i mod length USER_AGENTS), s\<lparr>world := w\<rparr>))"

text \<open>The object \<^verbatim>\<open>Website(url)\<close> of the brochure builder. The url is whatever the caller
  passes: a string from the form, any decoded JSON value from the classifier's reply.\<close>

record brochure_website =
  b_url :: json
  b_title :: string
  b_text :: string
  b_links :: "string list"

definition brochure_noise :: "string list" where
  "brochure_noise = [''script'', ''style'', ''img'', ''input'']"

text \<open>\<^verbatim>\<open>[a.get('href') for a in soup.find_all('a', href=True) if a.get('href')]\<close>\<close>

definition anchor_hrefs :: "node list \<Rightarrow> string list" where
  "anchor_hrefs soup =
     List.map_filter
       (\<lambda>as. case map_of as ''href'' of
                Some h \<Rightarrow> if h \<noteq> [] then Some h else None
              | None \<Rightarrow> None)
       (find_all (\<lambda>m as. m = ''a'' \<and> map_of as ''href'' \<noteq> None) soup)"

text \<open>The assignments of the \<^verbatim>\<open>try\<close> once the parse is there. The links are read after the
  removals in the body, from the tree as they left it.\<close>

definition brochure_extract :: "node list \<Rightarrow> string \<times> string \<times> string list" where
  "brochure_extract soup =
     (let title = (case find_first ''title'' soup of
                     Some (as, cs) \<Rightarrow>
                       (case tag_string cs of
                          Some t \<Rightarrow> if t \<noteq> [] then py_strip t else ''No title found''
                        | None \<Rightarrow> ''No title found'')
                   | None \<Rightarrow> ''No title found'');
          (text, soup') = (case find_first ''body'' soup of
                             Some (as, cs) \<Rightarrow>
                               (get_text (decompose_all brochure_noise cs),
                                decompose_in_body brochure_noise soup)
                           | None \<Rightarrow> ([], soup))
      in (title, text, anchor_hrefs soup'))"

definition brochure_try :: "'w env \<Rightarrow> exn + response \<Rightarrow> exn + (string \<times> string \<times> string list)" where
  "brochure_try env r =
     (case r of
        Inl e \<Rightarrow> Inl e
      | Inr resp \<Rightarrow>
          (case raise_for_status resp of
             Some e \<Rightarrow> Inl e
           | None \<Rightarrow>
               (case BeautifulSoup env (resp_content resp) of
                  Inl e \<Rightarrow> Inl e
                | Inr soup \<Rightarrow> Inr (brochure_extract soup))))"

text \<open>\<^verbatim>\<open>__init__\<close> with \<^verbatim>\<open>_fetch_and_parse\<close>: the defaults stay when the \<^verbatim>\<open>try\<close> block raises,
  and the error is printed. \<^verbatim>\<open>requests.get\<close> takes the text of a url that is not a string.\<close>

definition brochure_Website :: "'w env \<Rightarrow> json \<Rightarrow> 'w state \<Rightarrow> brochure_website \<times> 'w state" where
  "brochure_Website env url s =
     (case get_headers env s of
        (agent, s0) \<Rightarrow>
          (case do_get env (py_text env url) agent s0 of
             (r, s1) \<Rightarrow>
               (case brochure_try env r of
                  Inr (title, text, links) \<Rightarrow>
                    (\<lparr>b_url = url, b_title = title, b_text = text, b_links = links\<rparr>, s1)
                | Inl e \<Rightarrow>
                    (\<lparr>b_url = url, b_title = ''No title found'', b_text = [], b_links = []\<rparr>,
                     emit (Print (''Error fetching '' @ py_text env url @ '': '' @ exn_str e)) s1))))"

definition get_contents :: "brochure_website \<Rightarrow> string" where
  "get_contents website =
     ''Webpage Title:\<newline>'' @ b_title website @ ''\<newline>Webpage Contents:\<newline>''
     @ b_text website @ ''\<newline>\<newline>''"

definition get_website_links :: "brochure_website \<Rightarrow> string list" where
  "get_website_links website = b_links website"

definition link_system_prompt :: string where
  \<open>link_system_prompt =
     ''You are provided with a list of links found on a webpage. ''
     @ ''You are able to decide which of the links would be most relevant to include in a brochure about the company, ''
     @ ''such as links to an About page, or a Company page, or Careers/Jobs pages.\<newline>''
     @ ''You should respond in JSON as in this example:\<newline>''
     @ ''{ "links": [ {"type": "about page", "url": "https://full.url/goes/here/about"}, ''
     @ ''{"type": "careers page", "url": "https://another.full.url/careers"} ] }''\<close>

definition get_links_user_prompt :: "'w env \<Rightarrow> brochure_website \<Rightarrow> string" where
  "get_links_user_prompt env website =
     ''Here is the list of links on the website of '' @ py_text env (b_url website) @ '' - ''
     @ ''please decide which of these are relevant web links for a brochure about the company, respond with the full https URL in JSON format. ''
     @ ''Do not include Terms of Service, Privacy, email links.\<newline>''
     @ ''Links (some might be relative links):\<newline>''
     @ join ''\<newline>'' (b_links website)"

text \<open>\<^verbatim>\<open>json.loads(result)\<close> on the content of the first choice, which may be \<^verbatim>\<open>None\<close>.\<close>

definition loads :: "'w env \<Rightarrow> string option \<Rightarrow> exn + json" where
  "loads env result =
     (case result of
        None \<Rightarrow> Inl (Exn ''TypeError''
                 ''the JSON object must be str, bytes or bytearray, not NoneType'')
      | Some t \<Rightarrow> json_loads env t)"

text \<open>\<^verbatim>\<open>get_links\<close> has no \<^verbatim>\<open>try\<close>: whatever the completion call, the indexing or the
  decoding raises is its outcome.\<close>

definition get_links :: "'w env \<Rightarrow> string \<Rightarrow> 'w state \<Rightarrow> (exn + json) \<times> 'w state" where
  "get_links env url s =
     (case brochure_Website env (JString url) s of
        (website, s1) \<Rightarrow>
          (case do_chat env MODEL
                  [\<lparr>role = System, content = link_system_prompt\<rparr>,
                   \<lparr>role = User, content = get_links_user_prompt env website\<rparr>] True s1 of
             (r, s2) \<Rightarrow>
               (case r of
                  Inl e \<Rightarrow> (Inl e, s2)
                | Inr c \<Rightarrow>
                    (case first_choice c of
                       Inl e \<Rightarrow> (Inl e, s2)
                     | Inr result \<Rightarrow> (loads env result, s2)))))"

text \<open>\<^verbatim>\<open>links.get("links", [])\<close>\<close>

fun links_get :: "json \<Rightarrow> exn + json" where
  "links_get (JObject kvs) =
     Inr (case map_of kvs ''links'' of Some v \<Rightarrow> v | None \<Rightarrow> JArray [])"
| "links_get v =
     Inl (Exn ''AttributeError''
            (quoted (type_name v) @ '' object has no attribute '' @ quoted ''get''))"

text \<open>The test \<^verbatim>\<open>link["url"] and link["url"] != "/" and len(link["url"]) > 1\<close> on the value
  \<open>u\<close> of \<^verbatim>\<open>link["url"]\<close>, evaluated left to right: \<^verbatim>\<open>len\<close> is reached, and may raise, only
  for a true value other than \<^verbatim>\<open>"/"\<close>.\<close>

definition should_follow :: "json \<Rightarrow> exn + bool" where
  "should_follow u =
     (if \<not> truthy u then Inr False
      else if u = JString ''/'' then Inr False
      else case py_len u of Inl e \<Rightarrow> Inl e | Inr n \<Rightarrow> Inr (1 < n))"

text \<open>The \<^verbatim>\<open>for link in ...\<close> loop of \<^verbatim>\<open>get_all_details\<close>, on the items still to visit, with
  \<^verbatim>\<open>result\<close> as built so far.\<close>

fun follow_links :: "'w env \<Rightarrow> json list \<Rightarrow> string \<Rightarrow> 'w state \<Rightarrow> (exn + string) \<times> 'w state" where
  "follow_links env [] result s = (Inr result, s)"
| "follow_links env (link # rest) result s =
     (case subscript link ''url'' of
        Inl e \<Rightarrow> (Inl e, s)
      | Inr u \<Rightarrow>
          (case should_follow u of
             Inl e \<Rightarrow> (Inl e, s)
           | Inr False \<Rightarrow> follow_links env rest result s
           | Inr True \<Rightarrow>
               (let s1 = do_sleep env s in
                case subscript link ''type'' of
                  Inl e \<Rightarrow> (Inl e, s1)
                | Inr t \<Rightarrow>
                    (case brochure_Website env u s1 of
                       (page, s2) \<Rightarrow>
                         follow_links env rest
                           (result @ ''\<newline>\<newline>'' @ py_text env t @ ''\<newline>''
                              @ get_contents page) s2))))"

definition get_all_details :: "'w env \<Rightarrow> string \<Rightarrow> 'w state \<Rightarrow> (exn + string) \<times> 'w state" where
  "get_all_details env url s =
     (case brochure_Website env (JString url) s of
        (website, s1) \<Rightarrow>
          (case get_links env url s1 of
             (Inl e, s2) \<Rightarrow> (Inl e, s2)
           | (Inr links, s2) \<Rightarrow>
               (let s3 = emit (Print (''Found links: '' @ py_text env links)) s2 in
                case links_get links of
                  Inl e \<Rightarrow> (Inl e, s3)
                | Inr v \<Rightarrow>
                    (case py_iter v of
                       Inl e \<Rightarrow> (Inl e, s3)
                     | Inr items \<Rightarrow>
                         follow_links env items
                           (''Landing page:\<newline>'' @ get_contents website) s3))))"

definition system_prompt :: string where
  "system_prompt =
     ''You are an assistant that analyzes the contents of several relevant pages from a company website ''
     @ ''and creates a short brochure about the company for prospective customers, investors and recruits. Respond in markdown. ''
     @ ''Include details of company culture, customers and careers/jobs if you have the information.''"

definition brochure_preamble :: "string \<Rightarrow> string" where
  "brochure_preamble company_name =
     ''You are looking at a company called: '' @ company_name @ ''\<newline>''
     @ ''Here are the contents of its landing page and other relevant pages; use this information to build a short brochure of the company in markdown.\<newline>''"

definition get_brochure_user_prompt ::
    "'w env \<Rightarrow> string \<Rightarrow> string \<Rightarrow> 'w state \<Rightarrow> (exn + string) \<times> 'w state" where
  "get_brochure_user_prompt env company_name url s =
     (case get_all_details env url s of
        (Inl e, s1) \<Rightarrow> (Inl e, s1)
      | (Inr details, s1) \<Rightarrow> (Inr (take 5000 (brochure_preamble company_name @ details)), s1))"

text \<open>\<^verbatim>\<open>create_brochure\<close> has no \<^verbatim>\<open>try\<close> either: it returns the first choice's content, or
  ends with the exception raised on the way.\<close>

definition create_brochure ::
    "'w env \<Rightarrow> string \<Rightarrow> string \<Rightarrow> 'w state \<Rightarrow> (exn + string option) \<times> 'w state" where
  "create_brochure env company_name url s =
     (case get_brochure_user_prompt env company_name url s of
        (Inl e, s1) \<Rightarrow> (Inl e, s1)
      | (Inr user_prompt, s1) \<Rightarrow>
          (case do_chat env MODEL
                  [\<lparr>role = System, content = system_prompt\<rparr>,
                   \<lparr>role = User, content = user_prompt\<rparr>] False s1 of
             (r, s2) \<Rightarrow>
               (case r of
                  Inl e \<Rightarrow> (Inl e, s2)
                | Inr c \<Rightarrow> (first_choice c, s2))))"

section \<open>Vocabulary of the specification\<close>

text \<open>
  A link classification is a decoded JSON object whose \<^verbatim>\<open>type\<close> and \<^verbatim>\<open>url\<close> fields are
  strings. These definitions follow the words of the specification, not the code; the
  theorems below compare them with the code.
\<close>

fun str_field :: "string \<Rightarrow> json \<Rightarrow> string option" where
  "str_field k (JObject kvs) = (case map_of kvs k of Some (JString t) \<Rightarrow> Some t | _ \<Rightarrow> None)"
| "str_field k v = None"

definition is_classification :: "json \<Rightarrow> bool" where
  "is_classification l = (str_field ''type'' l \<noteq> None \<and> str_field ''url'' l \<noteq> None)"

definition link_url :: "json \<Rightarrow> string" where
  "link_url l = (case str_field ''url'' l of Some u \<Rightarrow> u | None \<Rightarrow> [])"

definition link_type :: "json \<Rightarrow> string" where
  "link_type l = (case str_field ''type'' l of Some t \<Rightarrow> t | None \<Rightarrow> [])"

text \<open>The specification's condition for following a link: its url is non-empty, is not
  the single character \<^verbatim>\<open>/\<close>, and is longer than one character.\<close>

definition worth_following :: "json \<Rightarrow> bool" where
  "worth_following l = (link_url l \<noteq> [] \<and> link_url l \<noteq> ''/'' \<and> 1 < length (link_url l))"


text \<open>Visiting links one after the other: wait, then fetch, in the order of the list.\<close>

fun visit_in_order :: "'w env \<Rightarrow> json list \<Rightarrow> 'w state \<Rightarrow> brochure_website list \<times> 'w state" where
  "visit_in_order env [] s = ([], s)"
| "visit_in_order env (l # ls) s =
     (case brochure_Website env (JString (link_url l)) (do_sleep env s) of
        (page, s1) \<Rightarrow>
          (case visit_in_order env ls s1 of (pages, s2) \<Rightarrow> (page # pages, s2)))"

text \<open>The part of the document a followed link adds: its type as a label, then the page.\<close>

definition labelled_section :: "json \<Rightarrow> brochure_website \<Rightarrow> string" where
  "labelled_section l page = ''\<newline>\<newline>'' @ link_type l @ ''\<newline>'' @ get_contents page"

text \<open>Every element of a document in document order, with its attributes; and the
  non-empty \<^verbatim>\<open>href\<close> values of its anchor elements, in that order.\<close>

fun elements :: "node list \<Rightarrow> (string \<times> attrs) list" where
  "elements [] = []"
| "elements (Tag m as cs # rest) = (m, as) # elements cs @ elements rest"
| "elements (x # rest) = elements rest"

definition document_hrefs :: "node list \<Rightarrow> string list" where
  "document_hrefs soup =
     [h. (m, as) \<leftarrow> elements soup, m = ''a'',
         h \<leftarrow> (case map_of as ''href'' of Some h \<Rightarrow> [h] | None \<Rightarrow> []), h \<noteq> []]"

text \<open>
  A tree as \<^verbatim>\<open>html.parser\<close> builds it: \<^verbatim>\<open>img\<close> and \<^verbatim>\<open>input\<close> are void elements, closed as
  soon as they open, and the content of \<^verbatim>\<open>script\<close> and \<^verbatim>\<open>style\<close> is read as raw text, so
  none of the four has an element inside.
\<close>

definition no_elements :: "node list \<Rightarrow> bool" where
  "no_elements cs = list_all (\<lambda>x. case x of Tag m as ds \<Rightarrow> False | _ \<Rightarrow> True) cs"

fun parser_shaped :: "node list \<Rightarrow> bool" where
  "parser_shaped [] = True"
| "parser_shaped (Tag m as cs # rest) =
     ((m \<in> set brochure_noise \<longrightarrow> no_elements cs) \<and> parser_shaped cs \<and> parser_shaped rest)"
| "parser_shaped (x # rest) = parser_shaped rest"

section \<open>A small site to run the scripts on\<close>

text \<open>
  A world that counts the calls made to it. The site, the parser's output, the model's
  replies and the decoder are given as functions, so that each run below picks its own.
\<close>

definition fixture :: "(string \<Rightarrow> exn + response) \<Rightarrow> (string \<Rightarrow> exn + node list)
    \<Rightarrow> (bool \<Rightarrow> exn + completion) \<Rightarrow> (string \<Rightarrow> exn + json) \<Rightarrow> nat env" where
  "fixture web parse model decode =
     \<lparr>requests_get = (\<lambda>url agent n. (web url, n + 1)),
      BeautifulSoup = parse,
      chat_completions_create = (\<lambda>m msgs json_mode n. (model json_mode, n + 1)),
      json_loads = decode,
      py_str = (\<lambda>v. ''<object>''),
      random_choice = (\<lambda>k n. (n, n + 1)),
      time_sleep = (\<lambda>n. n + 1)\<rparr>"

definition start :: "nat state" where
  "start = \<lparr>world = 0, trace = []\<rparr>"

definition home_soup :: "node list" where
  "home_soup =
     [SpecialString ''html'',
      Tag ''html'' []
        [Tag ''head'' [] [Tag ''title'' [] [NavigableString '' Acme '']],
         Tag ''body'' []
           [Tag ''script'' [] [SpecialString ''var x;''],
            Tag ''a'' [(''href'', ''/about'')] [NavigableString ''About''],
            Tag ''a'' [(''href'', [])] [NavigableString ''Top''],
            Tag ''a'' [(''name'', ''here'')] [],
            Tag ''p'' [] [NavigableString '' We make things. '',
               Tag ''a'' [(''href'', ''/about'')] [NavigableString ''more'']]]]]"

definition about_soup :: "node list" where
  "about_soup =
     [Tag ''html'' []
        [Tag ''head'' [] [Tag ''title'' [] [NavigableString ''About Acme'']],
         Tag ''body'' [] [Tag ''p'' [] [NavigableString ''Founded in 1999.'']]]]"

definition bodiless_soup :: "node list" where
  "bodiless_soup = [Tag ''html'' [] [Tag ''head'' [] [Tag ''title'' [] [NavigableString ''Frames'']]]]"

definition page_response :: "nat \<Rightarrow> string \<Rightarrow> string \<Rightarrow> string \<Rightarrow> response" where
  "page_response code why url body =
     \<lparr>status_code = code, reason = why, resp_url = url, resp_content = body\<rparr>"

definition acme_web :: "string \<Rightarrow> exn + response" where
  "acme_web url =
     (if url = ''http://acme.test'' then Inr (page_response 200 ''OK'' url ''home'')
      else if url = ''http://acme.test/about'' then Inr (page_response 200 ''OK'' url ''about'')
      else if url = ''http://acme.test/frames'' then Inr (page_response 200 ''OK'' url ''frames'')
      else if url = ''http://acme.test/choices''
        then Inr (page_response 300 ''Multiple Choices'' url ''home'')
      else if url = ''http://acme.test/gone''
        then Inr (page_response 404 ''Not Found'' url ''home'')
      else Inl (Exn ''ConnectionError'' ''unreachable''))"

definition acme_parse :: "string \<Rightarrow> exn + node list" where
  "acme_parse body =
     (if body = ''home'' then Inr home_soup
      else if body = ''about'' then Inr about_soup
      else if body = ''frames'' then Inr bodiless_soup
      else Inr [])"

definition classification :: "string \<Rightarrow> string \<Rightarrow> json" where
  "classification t u = JObject [(''type'', JString t), (''url'', JString u)]"

definition acme_links :: "json list" where
  "acme_links =
     [classification ''about page'' ''http://acme.test/about'',
      classification ''home'' ''/'',
      classification ''nothing'' [],
      classification ''about page'' ''http://acme.test/about'']"

definition acme_decode :: "string \<Rightarrow> exn + json" where
  "acme_decode t =
     (if t = ''links'' then Inr (JObject [(''links'', JArray acme_links)])
      else Inl (Exn ''JSONDecodeError'' ''Expecting value: line 1 column 1 (char 0)''))"

text \<open>The model answers both requests.\<close>

definition acme_env :: "nat env" where
  "acme_env = fixture acme_web acme_parse
     (\<lambda>json_mode. Inr [Some (if json_mode then ''links'' else ''# Acme'')]) acme_decode"

text \<open>The model answers the classifier's request and is unreachable for any other.\<close>

definition down_env :: "nat env" where
  "down_env = fixture acme_web acme_parse
     (\<lambda>json_mode. if json_mode then Inr [Some ''links'']
                   else Inl (Exn ''APIConnectionError'' ''Connection error.'')) acme_decode"

text \<open>The model answers the classifier's request with prose.\<close>

definition prose_env :: "nat env" where
  "prose_env = fixture acme_web acme_parse
     (\<lambda>json_mode. Inr [Some ''Sure! Here are the links.'']) acme_decode"

section \<open>Facts about the model\<close>


lemma subscript_url: "is_classification l \<Longrightarrow> subscript l ''url'' = Inr (JString (link_url l))"
  by (cases l) (auto simp: is_classification_def link_url_def split: option.splits json.splits)

lemma subscript_type: "is_classification l \<Longrightarrow> subscript l ''type'' = Inr (JString (link_type l))"
  by (cases l) (auto simp: is_classification_def link_type_def split: option.splits json.splits)

lemma should_follow_string: "should_follow (JString u) = Inr (u \<noteq> [] \<and> u \<noteq> ''/'' \<and> 1 < length u)"
  by (simp add: should_follow_def)



text \<open>One turn of the loop on a classification: followed or skipped, never an error.\<close>

lemma follow_links_step:
  assumes "is_classification l"
  shows "follow_links env (l # rest) result s =
     (if worth_following l then
        (case brochure_Website env (JString (link_url l)) (do_sleep env s) of
           (page, s2) \<Rightarrow> follow_links env rest (result @ labelled_section l page) s2)
      else follow_links env rest result s)"
  using assms
  by (simp add: subscript_url subscript_type should_follow_string worth_following_def
      labelled_section_def py_text_def Let_def split: prod.splits)

lemma find_all_elements:
  "find_all p soup = map snd (filter (\<lambda>(m, as). p m as) (elements soup))"
  by (induction p soup rule: find_all.induct) auto

lemma find_all_no_elements: "no_elements cs \<Longrightarrow> find_all p cs = []"
  by (induction p cs rule: find_all.induct) (auto simp: no_elements_def)

lemma find_all_decompose_all:
  assumes "parser_shaped cs" and "\<And>m as. p m as \<Longrightarrow> m \<notin> set brochure_noise"
  shows "find_all p (decompose_all brochure_noise cs) = find_all p cs"
  using assms(1)
proof (induction brochure_noise cs rule: decompose_all.induct)
  case 1
  then show ?case by simp
next
  case (2 m as cs rest)
  then show ?case using assms(2) [of m as]
    by (auto simp: find_all_no_elements)
qed simp_all

lemma find_all_decompose_in_body:
  assumes "parser_shaped soup" and "\<And>m as. p m as \<Longrightarrow> m \<notin> set brochure_noise"
  shows "find_all p (decompose_in_body brochure_noise soup) = find_all p soup"
  using assms(1)
proof (induction brochure_noise soup rule: decompose_in_body.induct)
  case 1
  then show ?case by simp
next
  case (2 m as cs rest)
  then show ?case
    by (auto simp: find_all_decompose_all [OF _ assms(2)])
qed simp_all

lemma anchor_hrefs_elements: "anchor_hrefs soup = document_hrefs soup"
proof -
  have "List.map_filter (\<lambda>as. case map_of as ''href'' of
                Some h \<Rightarrow> if h \<noteq> [] then Some h else None | None \<Rightarrow> None)
          (map snd (filter (\<lambda>(m, as). m = ''a'' \<and> map_of as ''href'' \<noteq> None) es)) =
        [h. (m, as) \<leftarrow> es, m = ''a'',
         h \<leftarrow> (case map_of as ''href'' of Some h \<Rightarrow> [h] | None \<Rightarrow> []), h \<noteq> []]"
    for es :: "(string \<times> attrs) list"
    by (induction es) (auto simp: List.map_filter_simps split: option.splits if_splits)
  then show ?thesis
    by (simp add: anchor_hrefs_def document_hrefs_def find_all_elements)
qed

lemma brochure_extract_links:
  assumes "parser_shaped soup"
  shows "snd (snd (brochure_extract soup)) = document_hrefs soup"
proof -
  have "anchor_hrefs (decompose_in_body brochure_noise soup) = anchor_hrefs soup"
    unfolding anchor_hrefs_def
    by (subst find_all_decompose_in_body [OF assms]) (auto simp: brochure_noise_def)
  then show ?thesis
    by (simp add: brochure_extract_def Let_def anchor_hrefs_elements
        split: option.splits prod.splits)
qed

text \<open>The definitions a run of the scripts on the small site unfolds.\<close>

lemmas model_defs = brochure_Website_def get_headers_def do_get_def do_chat_def do_sleep_def
  emit_def py_text_def brochure_try_def summarizer_try_def raise_for_status_def
  brochure_extract_def summarizer_extract_def summarizer_Website_def get_text_def py_strip_def
  py_isspace_def anchor_hrefs_def get_links_def get_all_details_def get_contents_def
  first_choice_def loads_def should_follow_def brochure_noise_def summarizer_noise_def
  List.map_filter_simps

lemmas site_defs = fixture_def start_def acme_env_def down_env_def prose_env_def acme_web_def
  acme_parse_def acme_decode_def acme_links_def classification_def home_soup_def about_soup_def
  bodiless_soup_def page_response_def

section \<open>The claims\<close>

subsection \<open>C1: the brochure prompt is cut to 5000 characters\<close>

text \<open>
  C1. Whatever the company name and the url, when \<^verbatim>\<open>get_brochure_user_prompt\<close> returns, its
  result is at most 5000 characters long: it is the first 5000 characters of the preamble
  followed by the aggregated document. That result is the content of the user message of
  the completion request \<^verbatim>\<open>create_brochure\<close> then makes, the last event of its run.
\<close>

theorem brochure_prompt_bounded:
  assumes "get_brochure_user_prompt env company_name url s = (Inr p, s1)"
  shows "length p \<le> 5000
    \<and> (\<exists>details. fst (get_all_details env url s) = Inr details
          \<and> p = take 5000 (brochure_preamble company_name @ details))
    \<and> last (trace (snd (create_brochure env company_name url s))) =
        ChatCall MODEL [\<lparr>role = System, content = system_prompt\<rparr>,
                        \<lparr>role = User, content = p\<rparr>] False"
proof -
  obtain details where d: "get_all_details env url s = (Inr details, s1)"
    and p: "p = take 5000 (brochure_preamble company_name @ details)"
    using assms
    by (auto simp: get_brochure_user_prompt_def split: prod.splits sum.splits)
  have "length p \<le> 5000" using p by simp
  moreover have "fst (get_all_details env url s) = Inr details" using d by simp
  moreover have "last (trace (snd (create_brochure env company_name url s))) =
        ChatCall MODEL [\<lparr>role = System, content = system_prompt\<rparr>,
                        \<lparr>role = User, content = p\<rparr>] False"
    using assms by (simp add: create_brochure_def do_chat_def emit_def split: prod.splits sum.splits)
  ultimately show ?thesis using p by blast
qed

theorem brochure_prompt_bounded_witness:
  "5000 < length (brochure_preamble (replicate 6000 CHR ''A''))
   \<and> fst (get_brochure_user_prompt acme_env (replicate 6000 CHR ''A'') ''http://acme.test'' start) =
       Inr (''You are looking at a company called: '' @ replicate 4963 CHR ''A'')
   \<and> length (''You are looking at a company called: '' @ replicate 4963 CHR ''A'') \<le> 5000"
proof -
  let ?run = "get_brochure_user_prompt acme_env (replicate 6000 CHR ''A'') ''http://acme.test'' start"
  let ?p = "''You are looking at a company called: '' @ replicate 4963 CHR ''A''"
  have f: "fst ?run = Inr ?p"
    by (simp add: get_brochure_user_prompt_def brochure_preamble_def model_defs site_defs)
  then have h: "?run = (Inr ?p, snd ?run)"
    by (metis prod.collapse)
  have big: "5000 < length (brochure_preamble (replicate 6000 CHR ''A''))"
    by (simp add: brochure_preamble_def)
  from brochure_prompt_bounded [OF h] f big show ?thesis by simp
qed


subsection \<open>C2: a failed fetch in the summarizer\<close>

text \<open>
  \<^verbatim>\<open>Website(url)\<close> of the summarizer always returns an object: every exception of its
  \<^verbatim>\<open>try\<close> block is caught. C2 as stated says more: that every status outside 2xx gives
  the error texts. \<^verbatim>\<open>raise_for_status\<close> raises for 4xx and 5xx only, so a response that
  arrives with status 300 is parsed like any page: here its title and text are those of
  the document, with no mark of a failure.
\<close>

theorem summarizer_redirect_status_counterexample:
  "fst (requests_get acme_env ''http://acme.test/choices'' HEADERS (world start)) =
      Inr (page_response 300 ''Multiple Choices'' ''http://acme.test/choices'' ''home'')
   \<and> status_code (page_response 300 ''Multiple Choices'' ''http://acme.test/choices'' ''home'') = 300
   \<and> fst (summarizer_Website acme_env ''http://acme.test/choices'' start) =
       \<lparr>s_url = ''http://acme.test/choices'', s_title = Some '' Acme '',
        s_text = ''About\<newline>Top\<newline>We make things.\<newline>more''\<rparr>"
  by (simp add: model_defs site_defs)

text \<open>
  C2, amended. When \<^verbatim>\<open>requests.get\<close> raises, or returns a response whose status is from 400
  to 599, the summarizer's \<^verbatim>\<open>Website(url)\<close> returns an object whose title is
  \<^verbatim>\<open>Error: \<close> followed by the text of the exception and whose text is
  \<^verbatim>\<open>Failed to fetch website content: \<close> followed by the same; the exception is the one
  raised by the request or by \<^verbatim>\<open>raise_for_status\<close>. A response with any other status, below
  400 or from 600 up, is parsed like a successful one: \<^verbatim>\<open>raise_for_status\<close> does not raise,
  and title and text are those read from the parsed content, whatever the status; the
  error texts appear only when the parser itself raises.
\<close>

theorem summarizer_fetch_failure:
  assumes "requests_get env url HEADERS (world s) = (r, w)"
    and "(\<exists>e. r = Inl e)
       \<or> (\<exists>resp. r = Inr resp \<and> 400 \<le> status_code resp \<and> status_code resp < 600)"
    and "requests_get env' url' HEADERS (world s') = (Inr resp', w')"
    and "status_code resp' < 400 \<or> 600 \<le> status_code resp'"
  shows "(\<exists>e. (r = Inl e \<or> (\<exists>resp. r = Inr resp \<and> raise_for_status resp = Some e))
      \<and> fst (summarizer_Website env url s) =
          \<lparr>s_url = url, s_title = Some (''Error: '' @ exn_str e),
           s_text = ''Failed to fetch website content: '' @ exn_str e\<rparr>)
    \<and> raise_for_status resp' = None
    \<and> fst (summarizer_Website env' url' s') =
        (case BeautifulSoup env' (resp_content resp') of
           Inr soup \<Rightarrow>
             \<lparr>s_url = url', s_title = fst (summarizer_extract soup),
              s_text = snd (summarizer_extract soup)\<rparr>
         | Inl e \<Rightarrow>
             \<lparr>s_url = url', s_title = Some (''Error: '' @ exn_str e),
              s_text = ''Failed to fetch website content: '' @ exn_str e\<rparr>)"
proof -
  have failing: "\<exists>e. (r = Inl e \<or> (\<exists>resp. r = Inr resp \<and> raise_for_status resp = Some e))
      \<and> fst (summarizer_Website env url s) =
          \<lparr>s_url = url, s_title = Some (''Error: '' @ exn_str e),
           s_text = ''Failed to fetch website content: '' @ exn_str e\<rparr>"
    using assms(2)
  proof
    assume "\<exists>e. r = Inl e"
    then obtain e where "r = Inl e" ..
    with assms(1) show ?thesis
      by (intro exI [of _ e]) (simp add: summarizer_Website_def do_get_def summarizer_try_def)
  next
    assume "\<exists>resp. r = Inr resp \<and> 400 \<le> status_code resp \<and> status_code resp < 600"
    then obtain resp where r: "r = Inr resp"
      and range: "400 \<le> status_code resp" "status_code resp < 600" by blast
    from range have "raise_for_status resp \<noteq> None"
      by (simp add: raise_for_status_def)
    then obtain e where e: "raise_for_status resp = Some e" by blast
    with r assms(1) show ?thesis
      by (intro exI [of _ e]) (simp add: summarizer_Website_def do_get_def summarizer_try_def)
  qed
  have quiet: "raise_for_status resp' = None"
    using assms(4) by (auto simp: raise_for_status_def)
  have parsed: "fst (summarizer_Website env' url' s') =
        (case BeautifulSoup env' (resp_content resp') of
           Inr soup \<Rightarrow>
             \<lparr>s_url = url', s_title = fst (summarizer_extract soup),
              s_text = snd (summarizer_extract soup)\<rparr>
         | Inl e \<Rightarrow>
             \<lparr>s_url = url', s_title = Some (''Error: '' @ exn_str e),
              s_text = ''Failed to fetch website content: '' @ exn_str e\<rparr>)"
    using assms(3) quiet
    by (simp add: summarizer_Website_def do_get_def summarizer_try_def
        split: sum.splits prod.splits)
  from failing quiet parsed show ?thesis by blast
qed

theorem summarizer_fetch_failure_witness:
  "fst (summarizer_Website acme_env ''http://acme.test/gone'' start) =
     \<lparr>s_url = ''http://acme.test/gone'',
      s_title = Some ''Error: 404 Client Error: Not Found for url: http://acme.test/gone'',
      s_text = ''Failed to fetch website content: 404 Client Error: Not Found for url: http://acme.test/gone''\<rparr>
   \<and> fst (summarizer_Website acme_env ''http://nowhere.test'' start) =
     \<lparr>s_url = ''http://nowhere.test'', s_title = Some ''Error: unreachable'',
      s_text = ''Failed to fetch website content: unreachable''\<rparr>
   \<and> fst (summarizer_Website acme_env ''http://acme.test/choices'' start) =
     \<lparr>s_url = ''http://acme.test/choices'', s_title = fst (summarizer_extract home_soup),
      s_text = snd (summarizer_extract home_soup)\<rparr>"
proof -
  let ?resp = "page_response 404 ''Not Found'' ''http://acme.test/gone'' ''home''"
  let ?other = "page_response 300 ''Multiple Choices'' ''http://acme.test/choices'' ''home''"
  have g: "requests_get acme_env ''http://acme.test/gone'' HEADERS (world start) = (Inr ?resp, 1)"
    by (simp add: site_defs)
  have c: "(\<exists>e. (Inr ?resp :: exn + response) = Inl e)
       \<or> (\<exists>resp. (Inr ?resp :: exn + response) = Inr resp \<and> 400 \<le> status_code resp \<and> status_code resp < 600)"
    by (simp add: page_response_def)
  have m: "raise_for_status ?resp =
     Some (Exn ''HTTPError'' ''404 Client Error: Not Found for url: http://acme.test/gone'')"
    by (simp add: raise_for_status_def page_response_def)
  let ?err = "Inl (Exn ''ConnectionError'' ''unreachable'') :: exn + response"
  have g2: "requests_get acme_env ''http://nowhere.test'' HEADERS (world start) = (?err, 1)"
    by (simp add: site_defs)
  have c2: "(\<exists>e. ?err = Inl e)
       \<or> (\<exists>resp. ?err = Inr resp \<and> 400 \<le> status_code resp \<and> status_code resp < 600)"
    by simp
  have g3: "requests_get acme_env ''http://acme.test/choices'' HEADERS (world start) = (Inr ?other, 1)"
    by (simp add: site_defs)
  have c3: "status_code ?other < 400 \<or> 600 \<le> status_code ?other"
    by (simp add: page_response_def)
  have ps: "BeautifulSoup acme_env (resp_content ?other) = Inr home_soup"
    by (simp add: acme_env_def fixture_def acme_parse_def page_response_def)
  from summarizer_fetch_failure [OF g c g3 c3] summarizer_fetch_failure [OF g2 c2 g3 c3] m ps
  show ?thesis by auto
qed

subsection \<open>C9: the summarizer's prompt depends on title and text only\<close>

text \<open>
  C9. Two runs of the summarizer, in any two worlds and on any two urls, whose page objects
  have the same title and the same text build the same message list, system message and
  user message alike, and that list is what each run sends to the completion endpoint.
\<close>

theorem summarizer_prompt_deterministic:
  assumes "summarizer_Website env1 url1 st1 = (a, st1')"
    and "summarizer_Website env2 url2 st2 = (b, st2')"
    and "s_title a = s_title b" and "s_text a = s_text b"
  shows "create_messages a = create_messages b
    \<and> last (trace (snd (summarize env1 url1 st1))) = ChatCall MODEL (create_messages a) False
    \<and> last (trace (snd (summarize env2 url2 st2))) = ChatCall MODEL (create_messages a) False"
proof -
  have eq: "create_messages a = create_messages b"
    using assms(3,4) by (simp add: create_messages_def create_user_prompt_def)
  have "last (trace (snd (summarize env1 url1 st1))) = ChatCall MODEL (create_messages a) False"
    using assms(1) by (simp add: summarize_def do_chat_def emit_def split: prod.splits sum.splits)
  moreover
  have "last (trace (snd (summarize env2 url2 st2))) = ChatCall MODEL (create_messages b) False"
    using assms(2) by (simp add: summarize_def do_chat_def emit_def split: prod.splits sum.splits)
  ultimately show ?thesis using eq by simp
qed

theorem summarizer_prompt_deterministic_witness:
  "s_url (fst (summarizer_Website acme_env ''http://acme.test'' start)) \<noteq>
     s_url (fst (summarizer_Website down_env ''http://acme.test/choices'' \<lparr>world = 7, trace = [Sleep]\<rparr>))
   \<and> create_messages (fst (summarizer_Website acme_env ''http://acme.test'' start)) =
     create_messages (fst (summarizer_Website down_env ''http://acme.test/choices''
        \<lparr>world = 7, trace = [Sleep]\<rparr>))
   \<and> last (trace (snd (summarize acme_env ''http://acme.test'' start))) =
     last (trace (snd (summarize down_env ''http://acme.test/choices'' \<lparr>world = 7, trace = [Sleep]\<rparr>)))"
proof -
  let ?r1 = "summarizer_Website acme_env ''http://acme.test'' start"
  let ?r2 = "summarizer_Website down_env ''http://acme.test/choices'' \<lparr>world = 7, trace = [Sleep]\<rparr>"
  have p1: "fst ?r1 = \<lparr>s_url = ''http://acme.test'', s_title = Some '' Acme '',
      s_text = ''About\<newline>Top\<newline>We make things.\<newline>more''\<rparr>"
    by (simp add: model_defs site_defs)
  have p2: "fst ?r2 = \<lparr>s_url = ''http://acme.test/choices'', s_title = Some '' Acme '',
      s_text = ''About\<newline>Top\<newline>We make things.\<newline>more''\<rparr>"
    by (simp add: model_defs site_defs)
  have h1: "?r1 = (fst ?r1, snd ?r1)" and h2: "?r2 = (fst ?r2, snd ?r2)" by simp_all
  have t: "s_title (fst ?r1) = s_title (fst ?r2)" and x: "s_text (fst ?r1) = s_text (fst ?r2)"
    by (simp_all add: p1 p2)
  from summarizer_prompt_deterministic [OF h1 h2 t x] show ?thesis
    by (simp add: p1 p2)
qed

subsection \<open>C10: a document without a body\<close>

text \<open>
  C10. When the request succeeds, \<^verbatim>\<open>raise_for_status\<close> does not raise and the parsed
  document has no \<^verbatim>\<open>body\<close> element, the summarizer's page has the text
  \<^verbatim>\<open>No body content found\<close>, its title is read from the document (the placeholder
  \<^verbatim>\<open>No title found\<close> when there is no title element), and the text differs from the text
  of every fetch failure.
\<close>

theorem summarizer_no_body:
  assumes "requests_get env url HEADERS (world s) = (Inr resp, w)"
    and "raise_for_status resp = None"
    and "BeautifulSoup env (resp_content resp) = Inr soup"
    and "find_first ''body'' soup = None"
  shows "s_text (fst (summarizer_Website env url s)) = ''No body content found''
    \<and> s_title (fst (summarizer_Website env url s)) =
        (case find_first ''title'' soup of
           Some (as, cs) \<Rightarrow> tag_string cs | None \<Rightarrow> Some ''No title found'')
    \<and> s_text (fst (summarizer_Website env url s)) \<noteq> ''Failed to fetch website content: '' @ m"
  using assms
  by (simp add: summarizer_Website_def do_get_def summarizer_try_def summarizer_extract_def)

theorem summarizer_no_body_witness:
  "find_first ''body'' bodiless_soup = None
   \<and> fst (summarizer_Website acme_env ''http://acme.test/frames'' start) =
       \<lparr>s_url = ''http://acme.test/frames'', s_title = Some ''Frames'',
        s_text = ''No body content found''\<rparr>"
proof -
  let ?resp = "page_response 200 ''OK'' ''http://acme.test/frames'' ''frames''"
  have g: "requests_get acme_env ''http://acme.test/frames'' HEADERS (world start) = (Inr ?resp, 1)"
    by (simp add: site_defs)
  have st: "raise_for_status ?resp = None"
    by (simp add: raise_for_status_def page_response_def)
  have ps: "BeautifulSoup acme_env (resp_content ?resp) = Inr bodiless_soup"
    by (simp add: fixture_def acme_env_def acme_parse_def page_response_def)
  have nb: "find_first ''body'' bodiless_soup = None"
    by (simp add: bodiless_soup_def)
  have u: "s_url (fst (summarizer_Website acme_env ''http://acme.test/frames'' start)) = ''http://acme.test/frames''"
    by (simp add: summarizer_Website_def split: prod.splits sum.splits)
  from summarizer_no_body [OF g st ps nb, of "[]"] nb u show ?thesis
    by (cases "fst (summarizer_Website acme_env ''http://acme.test/frames'' start)")
       (simp add: bodiless_soup_def)
qed

subsection \<open>C7: a failed fetch in the brochure builder\<close>

text \<open>
  \<^verbatim>\<open>Website(url)\<close> of the brochure builder always returns an object: every exception of
  the \<^verbatim>\<open>try\<close> block is caught. Read with the specification's account of a failed fetch,
  a transport error or a status outside 2xx, C7 says more than the code does: as in the
  summarizer, \<^verbatim>\<open>raise_for_status\<close> raises for 4xx and 5xx only. A response that arrives with
  status 300 is parsed like any page: title, text and links are those of the document, and
  nothing is printed.
\<close>

theorem brochure_redirect_status_counterexample:
  "fst (requests_get acme_env ''http://acme.test/choices'' (fst (get_headers acme_env start))
         (world (snd (get_headers acme_env start)))) =
      Inr (page_response 300 ''Multiple Choices'' ''http://acme.test/choices'' ''home'')
   \<and> status_code (page_response 300 ''Multiple Choices'' ''http://acme.test/choices'' ''home'') = 300
   \<and> fst (brochure_Website acme_env (JString ''http://acme.test/choices'') start) =
       \<lparr>b_url = JString ''http://acme.test/choices'', b_title = ''Acme'',
        b_text = ''About\<newline>Top\<newline>We make things.\<newline>more'',
        b_links = [''/about'', ''/about'']\<rparr>
   \<and> trace (snd (brochure_Website acme_env (JString ''http://acme.test/choices'') start)) =
       [Get ''http://acme.test/choices'' (fst (get_headers acme_env start))]"
  by (simp add: model_defs site_defs)

text \<open>
  C7, amended. When \<^verbatim>\<open>requests.get\<close> raises, or returns a response whose status is from 400
  to 599, the brochure builder's \<^verbatim>\<open>Website(url)\<close> returns the object with its default
  fields, the title \<^verbatim>\<open>No title found\<close>, an empty text and no links, after printing one line
  that names the url and the exception, which is the one raised by the request or by
  \<^verbatim>\<open>raise_for_status\<close>. The loop over the classified links goes on from there: a followed
  link whose fetch fails so adds its label and the contents of that default page, and the
  remaining links are visited.
\<close>

theorem brochure_fetch_failure:
  assumes "get_headers env s = (agent, s0)"
    and "requests_get env (py_text env url) agent (world s0) = (r, w)"
    and "(\<exists>e. r = Inl e)
       \<or> (\<exists>resp. r = Inr resp \<and> 400 \<le> status_code resp \<and> status_code resp < 600)"
  shows "\<exists>e. (r = Inl e \<or> (\<exists>resp. r = Inr resp \<and> raise_for_status resp = Some e))
    \<and> fst (brochure_Website env url s) =
        \<lparr>b_url = url, b_title = ''No title found'', b_text = [], b_links = []\<rparr>
    \<and> trace (snd (brochure_Website env url s)) =
        trace s @ [Get (py_text env url) agent,
                   Print (''Error fetching '' @ py_text env url @ '': '' @ exn_str e)]
    \<and> get_contents (fst (brochure_Website env url s)) =
        ''Webpage Title:\<newline>No title found\<newline>Webpage Contents:\<newline>\<newline>\<newline>''
    \<and> (is_classification l \<and> worth_following l \<and> url = JString (link_url l)
          \<and> s = do_sleep env s' \<longrightarrow>
        follow_links env (l # rest) result s' =
          follow_links env rest
            (result @ ''\<newline>\<newline>'' @ link_type l
               @ ''\<newline>Webpage Title:\<newline>No title found\<newline>Webpage Contents:\<newline>\<newline>\<newline>'')
            (snd (brochure_Website env url s)))"
proof -
  have "\<exists>e. r = Inl e \<or> (\<exists>resp. r = Inr resp \<and> raise_for_status resp = Some e)"
    using assms(3)
  proof
    assume "\<exists>e. r = Inl e"
    then show ?thesis by blast
  next
    assume "\<exists>resp. r = Inr resp \<and> 400 \<le> status_code resp \<and> status_code resp < 600"
    then obtain resp where r: "r = Inr resp"
      and range: "400 \<le> status_code resp" "status_code resp < 600" by blast
    from range have "raise_for_status resp \<noteq> None"
      by (simp add: raise_for_status_def)
    with r show ?thesis by blast
  qed
  then obtain e where raised: "r = Inl e \<or> (\<exists>resp. r = Inr resp \<and> raise_for_status resp = Some e)"
    ..
  have t: "brochure_try env r = Inl e"
    using raised by (auto simp: brochure_try_def)
  have tr: "trace s0 = trace s"
    using assms(1) by (auto simp: get_headers_def split: prod.splits)
  have page: "fst (brochure_Website env url s) =
        \<lparr>b_url = url, b_title = ''No title found'', b_text = [], b_links = []\<rparr>"
    using assms(1,2) t by (simp add: brochure_Website_def do_get_def)
  have ev: "trace (snd (brochure_Website env url s)) =
        trace s @ [Get (py_text env url) agent,
                   Print (''Error fetching '' @ py_text env url @ '': '' @ exn_str e)]"
    using assms(1,2) t tr by (simp add: brochure_Website_def do_get_def emit_def)
  have shown: "get_contents (fst (brochure_Website env url s)) =
        ''Webpage Title:\<newline>No title found\<newline>Webpage Contents:\<newline>\<newline>\<newline>''"
    by (simp add: page get_contents_def)
  have loop: "follow_links env (l # rest) result s' =
          follow_links env rest
            (result @ ''\<newline>\<newline>'' @ link_type l
               @ ''\<newline>Webpage Title:\<newline>No title found\<newline>Webpage Contents:\<newline>\<newline>\<newline>'')
            (snd (brochure_Website env url s))"
    if "is_classification l" "worth_following l" "url = JString (link_url l)" "s = do_sleep env s'"
  proof -
    from that(1) have "follow_links env (l # rest) result s' =
       (if worth_following l then
          (case brochure_Website env (JString (link_url l)) (do_sleep env s') of
             (page, s2) \<Rightarrow> follow_links env rest (result @ labelled_section l page) s2)
        else follow_links env rest result s')"
      by (rule follow_links_step)
    with that shown show ?thesis
      by (simp add: labelled_section_def split: prod.splits)
  qed
  from raised page ev shown loop show ?thesis by blast
qed

theorem brochure_fetch_failure_witness:
  "fst (brochure_Website acme_env (JString ''http://acme.test/gone'') (do_sleep acme_env start)) =
     \<lparr>b_url = JString ''http://acme.test/gone'', b_title = ''No title found'', b_text = [],
      b_links = []\<rparr>
   \<and> last (trace (snd (brochure_Website acme_env (JString ''http://acme.test/gone'')
        (do_sleep acme_env start)))) =
     Print ''Error fetching http://acme.test/gone: 404 Client Error: Not Found for url: http://acme.test/gone''
   \<and> fst (follow_links acme_env [classification ''gone page'' ''http://acme.test/gone''] ''Landing'' start)
     = Inr ''Landing\<newline>\<newline>gone page\<newline>Webpage Title:\<newline>No title found\<newline>Webpage Contents:\<newline>\<newline>\<newline>''"
proof -
  let ?s = "do_sleep acme_env start"
  let ?l = "classification ''gone page'' ''http://acme.test/gone''"
  let ?resp = "page_response 404 ''Not Found'' ''http://acme.test/gone'' ''home''"
  let ?e = "Exn ''HTTPError'' ''404 Client Error: Not Found for url: http://acme.test/gone''"
  have h: "get_headers acme_env ?s = (fst (get_headers acme_env ?s), snd (get_headers acme_env ?s))"
    by simp
  have w: "world (snd (get_headers acme_env ?s)) = 2"
    by (simp add: get_headers_def do_sleep_def emit_def site_defs)
  have g: "requests_get acme_env (py_text acme_env (JString ''http://acme.test/gone''))
      (fst (get_headers acme_env ?s)) (world (snd (get_headers acme_env ?s))) = (Inr ?resp, 3)"
    by (simp add: w py_text_def) (simp add: site_defs)
  have f: "(\<exists>e. (Inr ?resp :: exn + response) = Inl e)
      \<or> (\<exists>resp. (Inr ?resp :: exn + response) = Inr resp
            \<and> 400 \<le> status_code resp \<and> status_code resp < 600)"
    by (simp add: page_response_def)
  have m: "raise_for_status ?resp = Some ?e"
    by (simp add: raise_for_status_def page_response_def)
  have c: "is_classification ?l \<and> worth_following ?l
      \<and> JString ''http://acme.test/gone'' = JString (link_url ?l) \<and> ?s = do_sleep acme_env start"
    by (simp add: is_classification_def worth_following_def link_url_def classification_def)
  have t: "link_type ?l = ''gone page''"
    by (simp add: link_type_def classification_def)
  from brochure_fetch_failure [OF h g f, of ?l start "[]" "''Landing''"] c t m
  show ?thesis by (auto simp: py_text_def)
qed

subsection \<open>C3: a failed completion call\<close>




subsection \<open>C4: a classifier reply that is not JSON\<close>

text \<open>
  C4. When the classifier's reply is a text that \<^verbatim>\<open>json.loads\<close> rejects, \<^verbatim>\<open>get_links\<close> ends
  with the decoder's exception, and so do \<^verbatim>\<open>get_all_details\<close>,
  \<^verbatim>\<open>get_brochure_user_prompt\<close> and \<^verbatim>\<open>create_brochure\<close> for that url: nothing on the way catches
  it. The first two hypotheses name the two fetches of the landing page that precede the
  classifier's call, one in \<^verbatim>\<open>get_all_details\<close> and one in \<^verbatim>\<open>get_links\<close>.
\<close>

theorem classifier_decode_failure_propagates:
  assumes "brochure_Website env (JString url) s = (landing, s0)"
    and "brochure_Website env (JString url) s0 = (website, s1)"
    and "chat_completions_create env MODEL
           [\<lparr>role = System, content = link_system_prompt\<rparr>,
            \<lparr>role = User, content = get_links_user_prompt env website\<rparr>]
           True (world s1) = (Inr (Some reply # choices), w)"
    and "json_loads env reply = Inl e"
  shows "fst (get_links env url s0) = Inl e
    \<and> fst (get_all_details env url s) = Inl e
    \<and> fst (get_brochure_user_prompt env company_name url s) = Inl e
    \<and> fst (create_brochure env company_name url s) = Inl e"
proof -
  have links: "fst (get_links env url s0) = Inl e"
    using assms(2,3,4) by (simp add: get_links_def do_chat_def first_choice_def loads_def)
  then obtain s2 where "get_links env url s0 = (Inl e, s2)"
    by (cases "get_links env url s0") auto
  then have "get_all_details env url s = (Inl e, s2)"
    using assms(1) by (simp add: get_all_details_def)
  then have "get_brochure_user_prompt env company_name url s = (Inl e, s2)"
    by (simp add: get_brochure_user_prompt_def)
  then have "create_brochure env company_name url s = (Inl e, s2)"
    by (simp add: create_brochure_def)
  with \<open>get_all_details env url s = (Inl e, s2)\<close>
    \<open>get_brochure_user_prompt env company_name url s = (Inl e, s2)\<close> links
  show ?thesis by simp
qed

theorem classifier_decode_failure_propagates_witness:
  "json_loads prose_env ''Sure! Here are the links.'' =
     Inl (Exn ''JSONDecodeError'' ''Expecting value: line 1 column 1 (char 0)'')
   \<and> fst (create_brochure prose_env ''Acme'' ''http://acme.test'' start) =
     Inl (Exn ''JSONDecodeError'' ''Expecting value: line 1 column 1 (char 0)'')"
proof -
  let ?e = "Exn ''JSONDecodeError'' ''Expecting value: line 1 column 1 (char 0)''"
  let ?r0 = "brochure_Website prose_env (JString ''http://acme.test'') start"
  let ?r1 = "brochure_Website prose_env (JString ''http://acme.test'') (snd ?r0)"
  have a1: "?r0 = (fst ?r0, snd ?r0)" and a2: "?r1 = (fst ?r1, snd ?r1)" by simp_all
  have a3: "chat_completions_create prose_env MODEL
           [\<lparr>role = System, content = link_system_prompt\<rparr>,
            \<lparr>role = User, content = get_links_user_prompt prose_env (fst ?r1)\<rparr>]
           True (world (snd ?r1)) = (Inr (Some ''Sure! Here are the links.'' # []), world (snd ?r1) + 1)"
    by (simp add: prose_env_def fixture_def)
  have a4: "json_loads prose_env ''Sure! Here are the links.'' = Inl ?e"
    by (simp add: prose_env_def fixture_def acme_decode_def)
  from classifier_decode_failure_propagates [OF a1 a2 a3 a4, of "''Acme''"] a4
  show ?thesis by simp
qed

subsection \<open>C5: which classified links are fetched\<close>



subsection \<open>C6: the order of the aggregated document\<close>

text \<open>
  C6. When the classifier's reply decodes to an object whose \<^verbatim>\<open>links\<close> field is a list of
  link classifications, \<^verbatim>\<open>get_all_details\<close> returns \<^verbatim>\<open>Landing page:\<close>, a newline and the
  contents of the landing page, followed by one section for each followed classification,
  labelled with its type, in the order of the reply. The pages of the sections are those
  obtained by visiting the followed links one after the other in that order; nothing is
  reordered and no url is visited once for two classifications.
\<close>

theorem aggregate_in_classifier_order:
  assumes "brochure_Website env (JString url) s = (landing, s1)"
    and "get_links env url s1 = (Inr (JObject kvs), s2)"
    and "map_of kvs ''links'' = Some (JArray items)"
    and "list_all is_classification items"
  shows "fst (get_all_details env url s) =
     Inr (''Landing page:\<newline>'' @ get_contents landing
          @ concat (map2 labelled_section (filter worth_following items)
              (fst (visit_in_order env (filter worth_following items)
                 (emit (Print (''Found links: '' @ py_text env (JObject kvs))) s2)))))"
proof -
  have loop: "follow_links env items result st =
     (case visit_in_order env (filter worth_following items) st of
        (pages, st') \<Rightarrow>
          (Inr (result @ concat (map2 labelled_section (filter worth_following items) pages)), st'))"
    for result st
    using assms(4)
  proof (induction items arbitrary: result st)
    case Nil
    then show ?case by simp
  next
    case (Cons k rest)
    then have k: "is_classification k" and rest: "list_all is_classification rest" by simp_all
    show ?case
      by (simp only: follow_links_step [OF k]) (simp add: Cons.IH [OF rest] split: prod.splits)
  qed
  show ?thesis
    using assms(1,2,3)
    by (simp add: get_all_details_def Let_def loop split: prod.splits)
qed

theorem aggregate_in_classifier_order_witness:
  "fst (get_links acme_env ''http://acme.test''
        (snd (brochure_Website acme_env (JString ''http://acme.test'') start))) =
     Inr (JObject [(''links'', JArray acme_links)])
   \<and> map link_type (filter worth_following acme_links) = [''about page'', ''about page'']
   \<and> fst (get_all_details acme_env ''http://acme.test'' start) = Inr
  (''Landing page:\<newline>Webpage Title:\<newline>Acme\<newline>Webpage Contents:\<newline>About\<newline>Top\<newline>We make things.\<newline>more\<newline>\<newline>''
   @ ''\<newline>\<newline>about page\<newline>Webpage Title:\<newline>About Acme\<newline>Webpage Contents:\<newline>Founded in 1999.\<newline>\<newline>''
   @ ''\<newline>\<newline>about page\<newline>Webpage Title:\<newline>About Acme\<newline>Webpage Contents:\<newline>Founded in 1999.\<newline>\<newline>'')"
proof -
  let ?r0 = "brochure_Website acme_env (JString ''http://acme.test'') start"
  let ?r1 = "get_links acme_env ''http://acme.test'' (snd ?r0)"
  let ?kvs = "[(''links'', JArray acme_links)]"
  have a1: "?r0 = (fst ?r0, snd ?r0)" by simp
  have "fst ?r1 = Inr (JObject ?kvs)"
    by (simp add: model_defs fixture_def start_def acme_env_def acme_web_def acme_parse_def
        acme_decode_def home_soup_def page_response_def)
  then have a2: "?r1 = (Inr (JObject ?kvs), snd ?r1)"
    by (metis prod.collapse)
  have a3: "map_of ?kvs ''links'' = Some (JArray acme_links)" by simp
  have a4: "list_all is_classification acme_links"
    by (simp add: acme_links_def classification_def is_classification_def)
  have t: "map link_type (filter worth_following acme_links) = [''about page'', ''about page'']"
    by (simp add: acme_links_def classification_def link_url_def link_type_def worth_following_def)
  have d: "fst (get_all_details acme_env ''http://acme.test'' start) = Inr
  (''Landing page:\<newline>Webpage Title:\<newline>Acme\<newline>Webpage Contents:\<newline>About\<newline>Top\<newline>We make things.\<newline>more\<newline>\<newline>''
   @ ''\<newline>\<newline>about page\<newline>Webpage Title:\<newline>About Acme\<newline>Webpage Contents:\<newline>Founded in 1999.\<newline>\<newline>''
   @ ''\<newline>\<newline>about page\<newline>Webpage Title:\<newline>About Acme\<newline>Webpage Contents:\<newline>Founded in 1999.\<newline>\<newline>'')"
    by (simp add: model_defs site_defs)
  from aggregate_in_classifier_order [OF a1 a2 a3 a4] \<open>fst ?r1 = Inr (JObject ?kvs)\<close> t d
  show ?thesis by simp
qed

subsection \<open>C8: the links of a fetched page\<close>

text \<open>
  C8. When the fetch succeeds and the document is a tree as the parser builds it, the
  links of the brochure builder's page are the non-empty \<^verbatim>\<open>href\<close> values of all the anchor
  elements of the document, in document order, each value as it stands in the document
  and as often as it occurs.
\<close>

theorem brochure_links_collected:
  assumes "get_headers env s = (agent, s0)"
    and "requests_get env (py_text env url) agent (world s0) = (Inr resp, w)"
    and "raise_for_status resp = None"
    and "BeautifulSoup env (resp_content resp) = Inr soup"
    and "parser_shaped soup"
  shows "b_links (fst (brochure_Website env url s)) = document_hrefs soup"
proof -
  have "brochure_try env (Inr resp) = Inr (brochure_extract soup)"
    using assms(3,4) by (simp add: brochure_try_def)
  then have "b_links (fst (brochure_Website env url s)) = snd (snd (brochure_extract soup))"
    using assms(1,2) by (simp add: brochure_Website_def do_get_def split: prod.splits)
  with brochure_extract_links [OF assms(5)] show ?thesis by simp
qed

theorem brochure_links_collected_witness:
  "parser_shaped home_soup
   \<and> document_hrefs home_soup = [''/about'', ''/about'']
   \<and> b_links (fst (brochure_Website acme_env (JString ''http://acme.test'') start)) =
       [''/about'', ''/about'']"
proof -
  let ?h = "get_headers acme_env start"
  let ?resp = "page_response 200 ''OK'' ''http://acme.test'' ''home''"
  have a1: "?h = (fst ?h, snd ?h)" by simp
  have w: "world (snd ?h) = 1"
    by (simp add: get_headers_def site_defs)
  have a2: "requests_get acme_env (py_text acme_env (JString ''http://acme.test'')) (fst ?h)
      (world (snd ?h)) = (Inr ?resp, 2)"
    by (simp add: w py_text_def) (simp add: site_defs)
  have a3: "raise_for_status ?resp = None"
    by (simp add: raise_for_status_def page_response_def)
  have a4: "BeautifulSoup acme_env (resp_content ?resp) = Inr home_soup"
    by (simp add: acme_env_def fixture_def acme_parse_def page_response_def)
  have a5: "parser_shaped home_soup"
    by (simp add: home_soup_def brochure_noise_def no_elements_def)
  have d: "document_hrefs home_soup = [''/about'', ''/about'']"
    by (simp add: document_hrefs_def home_soup_def)
  from brochure_links_collected [OF a1 a2 a3 a4 a5] a5 d show ?thesis by simp
qed

end
